theory Spec2Isabelle
  imports Complex_Main
begin

section \<open>Perspective warp of a fabric image: the Photo object and its Perspective filter\<close>

text \<open>
  The development embeds \<^verbatim>\<open>photo.js\<close> (class \<^verbatim>\<open>fabric.Photo\<close>) and
  \<^verbatim>\<open>filter.js\<close> (class \<^verbatim>\<open>fabric.Image.filters.Perspective\<close>).

  Conventions of the embedding.
  \<^item> A JavaScript number is a \<^typ>\<open>real\<close>: rounding, \<^verbatim>\<open>NaN\<close> and the infinities of
    IEEE doubles are left out, so a division is only meaningful for a divisor other than
    zero and theorems about \<^verbatim>\<open>fabric.devicePixelRatio\<close> assume it positive.
  \<^item> A control point is the two-element array \<^verbatim>\<open>[x, y]\<close>, a pair. The array of
    control points is an object on the heap: the Photo and its filter hold the same
    reference, and every entry of the array is an array of its own.
  \<^item> A method takes the object and the heap and returns them updated; a JavaScript
    exception is the left summand of the result, which does not record what the method
    had written before it threw.
  \<^item> An identifier of the source that starts with an underscore loses it
    (\<^verbatim>\<open>_calcDimensions\<close> is \<open>calcDimensions\<close>).
\<close>

subsection \<open>Values, heap, exceptions\<close>

type_synonym point = "real \<times> real"

type_synonym addr = nat

record store =
  cells :: "addr \<Rightarrow> point list"
  fresh :: addr

text \<open>
  \<open>TypeError\<close> is what JavaScript raises when a property of \<^verbatim>\<open>undefined\<close> is read.
  \<open>Foreign e\<close> is an exception \<open>e\<close> thrown inside a library the code calls (fabric,
  verb-nurbs-web). The other three names are the error kinds of the specification; no
  function of the source constructs one of them.
\<close>

datatype 'e exn =
    TypeError
  | DegenerateGeometry
  | InvalidControlPoint
  | RenderBackendUnavailable
  | Foreign 'e

definition alloc :: "point list \<Rightarrow> store \<Rightarrow> addr \<times> store" where
  "alloc ps st = (fresh st, st\<lparr>cells := (cells st)(fresh st := ps), fresh := Suc (fresh st)\<rparr>)"

text \<open>The JavaScript expression \<^verbatim>\<open>v || 0\<close> for \<open>v\<close> a number or \<^verbatim>\<open>undefined\<close>.\<close>

definition or_zero :: "real option \<Rightarrow> real" where
  "or_zero v = (case v of None \<Rightarrow> 0 | Some x \<Rightarrow> if x = 0 then 0 else x)"

text \<open>
  Modelled from the spec: \<^verbatim>\<open>fabric.util.array.min\<close> and \<^verbatim>\<open>fabric.util.array.max\<close> belong
  to the fabric library, which is not part of the sources. \<^verbatim>\<open>computeBounds\<close> "scans all
  points" for the least and the greatest value of a coordinate; on an empty array the
  library returns \<^verbatim>\<open>undefined\<close>. The arguments here are the values of the property
  (\<^verbatim>\<open>'x'\<close> or \<^verbatim>\<open>'y'\<close>) already read off the array.
\<close>

fun array_min :: "real list \<Rightarrow> real option" where
  "array_min [] = None"
| "array_min (x # xs) = Some (fold min xs x)"

fun array_max :: "real list \<Rightarrow> real option" where
  "array_max [] = None"
| "array_max (x # xs) = Some (fold max xs x)"

subsection \<open>The Perspective filter (filter.js)\<close>

record coords_owner =
  perspectiveCoords :: "addr option"

record bounds =
  width :: real
  height :: real
  minX :: real
  maxX :: real
  minY :: real
  maxY :: real

record filter = coords_owner +
  pixelRatio :: real
  bounds :: bounds
  hasRelativeCoordinates :: bool

record filter_options =
  opt_hasRelativeCoordinates :: "bool option"
  opt_pixelRatio :: "real option"
  opt_perspectiveCoords :: "addr option"

text \<open>
  \<^verbatim>\<open>applyPixelRatio(coords = this.perspectiveCoords)\<close>: the loop multiplies both
  components of every entry in place and returns the array. An argument that is
  \<^verbatim>\<open>undefined\<close> (\<open>None\<close>) takes the default.
\<close>

definition scale_point :: "real \<Rightarrow> point \<Rightarrow> point" where
  "scale_point r c = (fst c * r, snd c * r)"

definition applyPixelRatio :: "addr option \<Rightarrow> filter \<Rightarrow> store \<Rightarrow> 'e exn + (addr \<times> store)" where
  "applyPixelRatio arg f st =
     (case (case arg of None \<Rightarrow> perspectiveCoords f | Some c \<Rightarrow> Some c) of
        None \<Rightarrow> Inl TypeError
      | Some a \<Rightarrow>
          Inr (a, st\<lparr>cells := (cells st)(a := map (scale_point (pixelRatio f)) (cells st a))\<rparr>))"

text \<open>
  The class fields, then \<^verbatim>\<open>setOptions\<close> (fabric copies every property of the options
  onto the filter), then \<^verbatim>\<open>applyPixelRatio()\<close>. The first argument is
  \<^verbatim>\<open>fabric.devicePixelRatio\<close>, the default of the field \<^verbatim>\<open>pixelRatio\<close>.
\<close>

definition filter_fields :: "real \<Rightarrow> filter" where
  "filter_fields dpr =
     \<lparr>perspectiveCoords = None,
      pixelRatio = dpr,
      bounds = \<lparr>bounds.width = 0, bounds.height = 0,
                minX = 0, maxX = 0, minY = 0, maxY = 0\<rparr>,
      hasRelativeCoordinates = True\<rparr>"

definition setOptions :: "filter_options \<Rightarrow> filter \<Rightarrow> filter" where
  "setOptions opts f =
     (let f1 = (case opt_hasRelativeCoordinates opts of
                  None \<Rightarrow> f | Some b \<Rightarrow> f\<lparr>hasRelativeCoordinates := b\<rparr>);
          f2 = (case opt_pixelRatio opts of None \<Rightarrow> f1 | Some r \<Rightarrow> f1\<lparr>pixelRatio := r\<rparr>);
          f3 = (case opt_perspectiveCoords opts of
                  None \<Rightarrow> f2 | Some a \<Rightarrow> f2\<lparr>perspectiveCoords := Some a\<rparr>)
      in f3)"

definition Perspective :: "real \<Rightarrow> filter_options option \<Rightarrow> store \<Rightarrow> 'e exn + (filter \<times> store)" where
  "Perspective dpr options st =
     (let f = (case options of None \<Rightarrow> filter_fields dpr
               | Some opts \<Rightarrow> setOptions opts (filter_fields dpr))
      in case applyPixelRatio None f st of
           Inl e \<Rightarrow> Inl e
         | Inr (_, st') \<Rightarrow> Inr (f, st'))"

text \<open>
  \<^verbatim>\<open>getPerspectiveBounds(coords = this.perspectiveCoords)\<close>. The first statement of the
  body assigns \<^verbatim>\<open>coords\<close> from \<^verbatim>\<open>this.perspectiveCoords\<close>, so the binding of the
  parameter (\<open>given\<close> below) is never read. The result is the returned object and the
  filter with the same values stored in \<^verbatim>\<open>this.bounds\<close>.
\<close>

definition getPerspectiveBounds :: "addr option \<Rightarrow> filter \<Rightarrow> store \<Rightarrow> 'e exn + (bounds \<times> filter)" where
  "getPerspectiveBounds arg f st =
     (let given = (case arg of None \<Rightarrow> perspectiveCoords f | Some c \<Rightarrow> Some c)
      in case perspectiveCoords f of
           None \<Rightarrow> Inl TypeError
         | Some a \<Rightarrow>
             (let coords = cells st a;
                  b1 = (bounds f)\<lparr>minX := or_zero (array_min (map fst coords))\<rparr>;
                  b2 = b1\<lparr>minY := or_zero (array_min (map snd coords))\<rparr>;
                  b3 = b2\<lparr>maxX := or_zero (array_max (map fst coords))\<rparr>;
                  b4 = b3\<lparr>maxY := or_zero (array_max (map snd coords))\<rparr>;
                  b5 = b4\<lparr>bounds.width := \<bar>maxX b4 - minX b4\<bar>\<rparr>;
                  b6 = b5\<lparr>bounds.height := \<bar>maxY b5 - minY b5\<bar>\<rparr>
              in Inr (\<lparr>bounds.width = bounds.width b6, bounds.height = bounds.height b6,
                        minX = minX b6,
                        maxX = maxX b6, minY = minY b6, maxY = maxY b6\<rparr>,
                      f\<lparr>bounds := b6\<rparr>)))"

text \<open>
  \<^verbatim>\<open>calculateCoordsByCorners(coords = this.perspectiveCoords)\<close>: subtracts the stored
  \<^verbatim>\<open>bounds.minX\<close> and \<^verbatim>\<open>bounds.minY\<close> from every entry, in place.
\<close>

definition shift_point :: "point \<Rightarrow> point \<Rightarrow> point" where
  "shift_point off c = (fst c - fst off, snd c - snd off)"

definition calculateCoordsByCorners :: "addr option \<Rightarrow> filter \<Rightarrow> store \<Rightarrow> 'e exn + store" where
  "calculateCoordsByCorners arg f st =
     (case (case arg of None \<Rightarrow> perspectiveCoords f | Some c \<Rightarrow> Some c) of
        None \<Rightarrow> Inl TypeError
      | Some a \<Rightarrow>
          Inr (st\<lparr>cells := (cells st)(a := map (shift_point (minX (bounds f), minY (bounds f)))
                                                (cells st a))\<rparr>))"

subsection \<open>Tessellation and the render pass (filter.js)\<close>

text \<open>
  The mesh that \<^verbatim>\<open>tessellate()\<close> of verb-nurbs-web returns; the code reads
  \<^verbatim>\<open>faces\<close>, \<^verbatim>\<open>points\<close> and \<^verbatim>\<open>uvs\<close> of it.
\<close>

record mesh =
  faces :: "nat list list"
  points :: "real list list"
  uvs :: "real list list"

text \<open>
  The library call \<^verbatim>\<open>verb.geom.NurbsSurface.byCorners(p0, p1, p2, p3).tessellate()\<close> is a
  parameter of the model: a function of the four arguments that \<^verbatim>\<open>byCorners\<close> receives
  (\<open>None\<close> for \<^verbatim>\<open>undefined\<close>), which returns a mesh or throws.
\<close>

type_synonym 'e tessellator =
  "point option \<Rightarrow> point option \<Rightarrow> point option \<Rightarrow> point option \<Rightarrow> 'e + mesh"

definition nth_opt :: "'a list \<Rightarrow> nat \<Rightarrow> 'a option" where
  "nth_opt xs i = (if i < length xs then Some (xs ! i) else None)"

text \<open>
  \<^verbatim>\<open>generateSurface()\<close>: the spread \<^verbatim>\<open>...corners\<close> hands the entries of the array over
  as arguments, of which \<^verbatim>\<open>byCorners\<close> takes the first four; spreading \<^verbatim>\<open>undefined\<close>
  raises a TypeError. The method has no parameters (the two arguments that
  \<^verbatim>\<open>applyToWebGL\<close> passes are dropped) and writes nothing.
\<close>

definition generateSurface :: "'e tessellator \<Rightarrow> filter \<Rightarrow> store \<Rightarrow> 'e exn + mesh" where
  "generateSurface tess f st =
     (case perspectiveCoords f of
        None \<Rightarrow> Inl TypeError
      | Some a \<Rightarrow>
          (let corners = cells st a
           in case tess (nth_opt corners 0) (nth_opt corners 1)
                        (nth_opt corners 2) (nth_opt corners 3) of
                Inl e \<Rightarrow> Inl (Foreign e)
              | Inr m \<Rightarrow> Inr m))"

text \<open>
  The pipeline state that fabric's filter backend passes to \<^verbatim>\<open>applyTo\<close>, as far as the
  code reads or writes it. \<open>canvas_width\<close> and \<open>canvas_height\<close> are
  \<^verbatim>\<open>options.context.canvas.width\<close> and \<^verbatim>\<open>.height\<close>; a canvas element keeps the
  integer part of what is assigned to them.
\<close>

record pipeline =
  webgl :: bool
  canvas_width :: real
  canvas_height :: real
  destinationWidth :: real
  destinationHeight :: real

text \<open>
  What \<^verbatim>\<open>applyToWebGL\<close> hands to the GPU: the index buffer (a \<^verbatim>\<open>Uint16Array\<close>, which
  keeps every index modulo \<open>2 ^ 16\<close>), the two attribute buffers, the two uniforms, the
  viewport and the number of indices drawn.
\<close>

record draw_call =
  indices :: "nat list"
  aPosition :: "real list"
  aUvs :: "real list"
  uStepW :: real
  uStepH :: real
  viewport :: "real \<times> real \<times> real \<times> real"
  count :: nat

text \<open>
  The library side of a render pass: the tessellator, and whether fabric's
  \<^verbatim>\<open>_setupFrameBuffer\<close> and \<^verbatim>\<open>retrieveShader\<close> (which compiles the shader program and
  throws when compilation fails) return (\<open>None\<close>) or throw.
\<close>

record 'e backend =
  tessellate :: "'e tessellator"
  setupFrameBuffer :: "'e option"
  retrieveShader :: "'e option"

definition applyToWebGL :: "'e backend \<Rightarrow> filter \<Rightarrow> store \<Rightarrow> pipeline \<Rightarrow> 'e exn + draw_call" where
  "applyToWebGL be f st opts =
     (case retrieveShader be of
        Some e \<Rightarrow> Inl (Foreign e)
      | None \<Rightarrow>
          (case generateSurface (tessellate be) f st of
             Inl e \<Rightarrow> Inl e
           | Inr tess \<Rightarrow>
               (let ixs = map (\<lambda>i. i mod 65536) (concat (faces tess))
                in Inr \<lparr>indices = ixs,
                        aPosition = concat (points tess),
                        aUvs = concat (uvs tess),
                        uStepW = 1 / canvas_width opts,
                        uStepH = 1 / canvas_height opts,
                        viewport = (0, 0, destinationWidth opts, destinationHeight opts),
                        count = length ixs\<rparr>)))"

text \<open>
  \<^verbatim>\<open>applyTo(options)\<close>. With \<^verbatim>\<open>options.webgl\<close> false the body is skipped and the method
  returns. The result is the filter, the heap, the pipeline state and the draw call issued,
  if any. \<^verbatim>\<open>_swapTextures\<close> exchanges the two texture handles of the pipeline state, which
  the model does not hold.
\<close>

definition applyTo ::
  "'e backend \<Rightarrow> filter \<Rightarrow> store \<Rightarrow> pipeline \<Rightarrow>
     'e exn + (filter \<times> store \<times> pipeline \<times> draw_call option)" where
  "applyTo be f st opts =
     (if webgl opts then
        (case getPerspectiveBounds None f st of
           Inl e \<Rightarrow> Inl e
         | Inr (b, f1) \<Rightarrow>
             (let opts1 = opts\<lparr>canvas_width := real_of_int \<lfloor>bounds.width b\<rfloor>,
                                canvas_height := real_of_int \<lfloor>bounds.height b\<rfloor>,
                                destinationWidth := bounds.width b,
                                destinationHeight := bounds.height b\<rparr>
              in case (if hasRelativeCoordinates f1
                       then calculateCoordsByCorners None f1 st else Inr st) of
                   Inl e \<Rightarrow> Inl e
                 | Inr st1 \<Rightarrow>
                     (case setupFrameBuffer be of
                        Some e \<Rightarrow> Inl (Foreign e)
                      | None \<Rightarrow>
                          (case applyToWebGL be f1 st1 opts1 of
                             Inl e \<Rightarrow> Inl e
                           | Inr d \<Rightarrow> Inr (f1, st1, opts1, Some d)))))
      else Inr (f, st, opts, None))"

subsection \<open>The Photo (photo.js)\<close>

text \<open>The object that \<^verbatim>\<open>_calcDimensions\<close> returns.\<close>

record dimensions =
  left :: real
  top :: real
  width :: real
  height :: real

text \<open>
  The fields of a Photo that the geometry reads or writes. \<^verbatim>\<open>pathOffset\<close> is
  \<^verbatim>\<open>undefined\<close> (\<open>None\<close>) until \<^verbatim>\<open>_setPositionDimensions\<close> assigns it.
\<close>

record photo = coords_owner +
  width :: real
  height :: real
  scaleX :: real
  scaleY :: real
  pathOffset :: "point option"
  filters :: "filter list"

text \<open>
  \<^verbatim>\<open>_calcDimensions()\<close>; the first argument is \<^verbatim>\<open>fabric.devicePixelRatio\<close>.
\<close>

definition calcDimensions :: "real \<Rightarrow> photo \<Rightarrow> store \<Rightarrow> 'e exn + dimensions" where
  "calcDimensions dpr p st =
     (case perspectiveCoords p of
        None \<Rightarrow> Inl TypeError
      | Some a \<Rightarrow>
          (let coords = map (\<lambda>c. (fst c / dpr, snd c / dpr)) (cells st a);
               minX = or_zero (array_min (map fst coords));
               minY = or_zero (array_min (map snd coords));
               maxX = or_zero (array_max (map fst coords));
               maxY = or_zero (array_max (map snd coords));
               width = \<bar>maxX - minX\<bar>;
               height = \<bar>maxY - minY\<bar>
           in Inr \<lparr>left = minX, top = minY,
                   dimensions.width = width, dimensions.height = height\<rparr>))"

text \<open>\<^verbatim>\<open>_setPositionDimensions(options)\<close>; the argument is not read.\<close>

definition setPositionDimensions :: "real \<Rightarrow> photo \<Rightarrow> store \<Rightarrow> 'e exn + (dimensions \<times> photo)" where
  "setPositionDimensions dpr p st =
     (case calcDimensions dpr p st of
        Inl e \<Rightarrow> Inl e
      | Inr d \<Rightarrow>
          Inr (d, p\<lparr>photo.width := dimensions.width d,
                    photo.height := dimensions.height d,
                    pathOffset := Some (left d, top d)\<rparr>))"

text \<open>
  \<^verbatim>\<open>_applyPointsOffset()\<close>: the loop subtracts \<^verbatim>\<open>pathOffset\<close> from every entry in place.
  \<^verbatim>\<open>pathOffset\<close> is read inside the loop, so an empty array never reads it.
\<close>

definition applyPointsOffset :: "photo \<Rightarrow> store \<Rightarrow> 'e exn + store" where
  "applyPointsOffset p st =
     (case perspectiveCoords p of
        None \<Rightarrow> Inl TypeError
      | Some a \<Rightarrow>
          (if cells st a = [] then Inr st
           else case pathOffset p of
                  None \<Rightarrow> Inl TypeError
                | Some off \<Rightarrow>
                    Inr (st\<lparr>cells := (cells st)(a := map (shift_point off) (cells st a))\<rparr>)))"

text \<open>
  \<^verbatim>\<open>_resetSizeAndPosition(index, apply = true)\<close>: \<open>index\<close> is not read; \<open>apply\<close> that is
  \<^verbatim>\<open>undefined\<close> (\<open>None\<close>) takes the default.
\<close>

definition resetSizeAndPosition ::
  "real \<Rightarrow> nat option \<Rightarrow> bool option \<Rightarrow> photo \<times> store \<Rightarrow> 'e exn + (photo \<times> store)" where
  "resetSizeAndPosition dpr index apply s =
     (case setPositionDimensions dpr (fst s) (snd s) of
        Inl e \<Rightarrow> Inl e
      | Inr (_, p1) \<Rightarrow>
          (if (case apply of None \<Rightarrow> True | Some b \<Rightarrow> b)
           then (case applyPointsOffset p1 (snd s) of
                   Inl e \<Rightarrow> Inl e
                 | Inr st1 \<Rightarrow> Inr (p1, st1))
           else Inr (p1, snd s)))"

text \<open>
  \<^verbatim>\<open>getInitialPerspective()\<close>. \<open>w\<close> and \<open>h\<close> are the values of fabric's
  \<^verbatim>\<open>getScaledWidth()\<close> and \<^verbatim>\<open>getScaledHeight()\<close>. The array literal is a new object;
  the Photo keeps the reference and passes the same reference to the filter. The result is
  the returned reference, the Photo and the heap at the call of \<^verbatim>\<open>this.applyFilters()\<close>,
  which renders through fabric's filter backend (\<open>applyTo\<close> above, for this filter with
  \<^verbatim>\<open>hasRelativeCoordinates\<close> false).
\<close>

definition getInitialPerspective ::
  "real \<Rightarrow> real \<Rightarrow> real \<Rightarrow> photo \<Rightarrow> store \<Rightarrow> 'e exn + (addr \<times> photo \<times> store)" where
  "getInitialPerspective dpr w h p st =
     (let (a, st1) = alloc [(0, 0), (w, 0), (w, h), (0, h)] st;
          p1 = p\<lparr>perspectiveCoords := Some a\<rparr>
      in case Perspective dpr
                (Some \<lparr>opt_hasRelativeCoordinates = Some False,
                       opt_pixelRatio = Some dpr,
                       opt_perspectiveCoords = Some a\<rparr>) st1 of
           Inl e \<Rightarrow> Inl e
         | Inr (perspectiveFilter, st2) \<Rightarrow>
             Inr (a, p1\<lparr>filters := filters p1 @ [perspectiveFilter]\<rparr>, st2))"

subsection \<open>Dragging a control point (photo.js)\<close>

text \<open>
  The action handler that \<^verbatim>\<open>togglePerspective\<close> builds for the control of one entry
  \<^verbatim>\<open>coord\<close> of \<^verbatim>\<open>perspectiveCoords\<close>: \<open>a\<close> is the array at the time the controls were
  built and \<open>index\<close> the position of \<^verbatim>\<open>coord\<close> in it. \<open>toLocal\<close> stands for fabric's
  \<^verbatim>\<open>transformPoint(mousePoint, invertTransform(target.calcTransformMatrix()))\<close>. The
  target of the transform is the Photo of the state. The handler ends with
  \<^verbatim>\<open>setCoords()\<close> and \<^verbatim>\<open>applyFilters()\<close>, which belong to fabric, and returns true.
\<close>

definition actionHandler ::
  "(photo \<Rightarrow> point \<Rightarrow> point) \<Rightarrow> real \<Rightarrow> addr \<Rightarrow> nat \<Rightarrow>
     'ev \<Rightarrow> 'tr \<Rightarrow> real \<Rightarrow> real \<Rightarrow> photo \<times> store \<Rightarrow> 'e exn + (bool \<times> photo \<times> store)" where
  "actionHandler toLocal dpr a index eventData transform x y s =
     (let target = fst s;
          centerBasedLocalPoint = toLocal target (x, y);
          topLeftBasedLocalPoint =
            (fst centerBasedLocalPoint + photo.width target / 2,
             snd centerBasedLocalPoint + photo.height target / 2);
          coord = (fst topLeftBasedLocalPoint / scaleX target * dpr,
                   snd topLeftBasedLocalPoint / scaleY target * dpr);
          st1 = (snd s)\<lparr>cells := (cells (snd s))(a := (cells (snd s) a)[index := coord])\<rparr>
      in case resetSizeAndPosition dpr None None (target, st1) of
           Inl e \<Rightarrow> Inl e
         | Inr (p2, st2) \<Rightarrow> Inr (True, p2, st2))"

text \<open>
  \<^verbatim>\<open>_actionWrapper(anchorIndex, fn)\<close> returns a handler. A missing \<^verbatim>\<open>transform\<close> or
  \<^verbatim>\<open>eventData\<close> is \<open>None\<close>; the handler then returns \<^verbatim>\<open>undefined\<close> (\<open>None\<close>).
\<close>

definition actionWrapper ::
  "nat \<Rightarrow> ('ev \<Rightarrow> 'tr \<Rightarrow> real \<Rightarrow> real \<Rightarrow> 's \<Rightarrow> 'e exn + ('r \<times> 's)) \<Rightarrow>
     'ev option \<Rightarrow> 'tr option \<Rightarrow> real \<Rightarrow> real \<Rightarrow> 's \<Rightarrow> 'e exn + ('r option \<times> 's)" where
  "actionWrapper anchorIndex fn eventData transform x y s =
     (case transform of
        None \<Rightarrow> Inr (None, s)
      | Some tr \<Rightarrow>
          (case eventData of
             None \<Rightarrow> Inr (None, s)
           | Some ev \<Rightarrow>
               (case fn ev tr x y s of
                  Inl e \<Rightarrow> Inl e
                | Inr (actionPerformed, s') \<Rightarrow> Inr (Some actionPerformed, s'))))"

text \<open>
  The anchor index that \<^verbatim>\<open>togglePerspective\<close> passes to \<^verbatim>\<open>_actionWrapper\<close> for the
  control of entry \<open>index\<close> of an array of \<open>n\<close> entries
  (\<^verbatim>\<open>index > 0 ? index - 1 : lastControl\<close>).
\<close>

definition anchorIndex_of :: "nat \<Rightarrow> nat \<Rightarrow> nat" where
  "anchorIndex_of n index = (if index > 0 then index - 1 else n - 1)"

subsection \<open>Reading the control points; sample values\<close>

text \<open>The control points an object sees through its reference, \<open>None\<close> when it has none.\<close>

definition coords_of :: "'a coords_owner_scheme \<Rightarrow> store \<Rightarrow> point list option" where
  "coords_of obj st = (case perspectiveCoords obj of None \<Rightarrow> None | Some a \<Rightarrow> Some (cells st a))"

text \<open>
  Values at which the theorems below are instantiated: a heap with one array at address
  \<open>0\<close>; the corners of a 400 by 200 image after the first corner was dragged to
  \<open>(-20, -20)\<close>; a Photo and a filter that refer to address \<open>0\<close>; a tessellator that
  returns the quadrilateral as two triangles and throws when a corner is missing.
\<close>

definition store_with :: "point list \<Rightarrow> store" where
  "store_with cs = \<lparr>cells = (\<lambda>_. [])(0 := cs), fresh = 1\<rparr>"

definition dragged :: "point list" where
  "dragged = [(-20, -20), (400, 0), (400, 200), (0, 200)]"

definition sample_photo :: photo where
  "sample_photo =
     \<lparr>perspectiveCoords = Some 0, photo.width = 200, photo.height = 100,
      scaleX = 1, scaleY = 1, pathOffset = None, filters = []\<rparr>"

definition sample_filter :: filter where
  "sample_filter = (filter_fields 1)\<lparr>perspectiveCoords := Some 0\<rparr>"

definition sample_tessellator :: "unit tessellator" where
  "sample_tessellator p0 p1 p2 p3 =
     (case (p0, p1, p2, p3) of
        (Some a, Some b, Some c, Some d) \<Rightarrow>
          Inr \<lparr>faces = [[0, 1, 2], [0, 2, 3]],
               points = [[fst a, snd a], [fst b, snd b], [fst c, snd c], [fst d, snd d]],
               uvs = [[0, 0], [1, 0], [1, 1], [0, 1]]\<rparr>
      | _ \<Rightarrow> Inl ())"

text \<open>
  Four points on one line, and the predicate that says so: every point after the second
  lies on the line through the first two.
\<close>

definition collinear :: "point list \<Rightarrow> bool" where
  "collinear cs =
     (case cs of
        p # q # rest \<Rightarrow>
          list_all (\<lambda>r. (fst q - fst p) * (snd r - snd p) = (snd q - snd p) * (fst r - fst p)) rest
      | _ \<Rightarrow> True)"

definition on_a_line :: "point list" where
  "on_a_line = [(0, 0), (100, 50), (200, 100), (300, 150)]"

text \<open>
  A pipeline state without WebGL (what fabric's 2D filter backend passes), and a backend
  whose shader compilation fails.
\<close>

definition no_webgl :: pipeline where
  "no_webgl = \<lparr>webgl = False, canvas_width = 300, canvas_height = 150,
                destinationWidth = 300, destinationHeight = 150\<rparr>"

definition failing_backend :: "unit backend" where
  "failing_backend = \<lparr>tessellate = sample_tessellator, setupFrameBuffer = None,
                       retrieveShader = Some ()\<rparr>"

text \<open>
  The corners of an untouched 200 by 100 image at pixel ratio \<open>1\<close>, and the transform of
  an object whose matrix is the identity (centred on the canvas origin, not rotated, not
  scaled).
\<close>

definition initial_corners :: "point list" where
  "initial_corners = [(0, 0), (200, 0), (200, 100), (0, 100)]"

definition identity_transform :: "photo \<Rightarrow> point \<Rightarrow> point" where
  "identity_transform target pt = pt"

section \<open>Properties\<close>

subsection \<open>Minimum and maximum of a coordinate\<close>

lemma array_min_Min: "xs \<noteq> [] \<Longrightarrow> array_min xs = Some (Min (set xs))"
proof (cases xs)
  case Nil
  assume "xs \<noteq> []"
  with Nil show ?thesis by simp
next
  case (Cons a as)
  then show ?thesis using Min.set_eq_fold [of a as] by simp
qed

lemma array_max_Max: "xs \<noteq> [] \<Longrightarrow> array_max xs = Some (Max (set xs))"
proof (cases xs)
  case Nil
  assume "xs \<noteq> []"
  with Nil show ?thesis by simp
next
  case (Cons a as)
  then show ?thesis using Max.set_eq_fold [of a as] by simp
qed

lemma or_zero_Some: "or_zero (Some x) = x"
  by (simp add: or_zero_def)

lemma or_zero_None: "or_zero None = 0"
  by (simp add: or_zero_def)

lemma lo_Min: "xs \<noteq> [] \<Longrightarrow> or_zero (array_min xs) = Min (set xs)"
  by (simp add: array_min_Min or_zero_Some)

lemma hi_Max: "xs \<noteq> [] \<Longrightarrow> or_zero (array_max xs) = Max (set xs)"
  by (simp add: array_max_Max or_zero_Some)

lemma lo_le_hi: "or_zero (array_min xs) \<le> or_zero (array_max xs)"
proof (cases "xs = []")
  case True
  then show ?thesis by (simp add: or_zero_None)
next
  case False
  then have "Min (set xs) \<le> Max (set xs)" by simp
  with False show ?thesis by (simp add: lo_Min hi_Max)
qed

lemma Min_shift:
  fixes xs :: "real list"
  assumes "xs \<noteq> []"
  shows "Min ((\<lambda>x. x - c) ` set xs) = Min (set xs) - c"
proof -
  have "mono (\<lambda>x::real. x - c)" by (simp add: mono_def)
  then have "Min (set xs) - c = Min ((\<lambda>x. x - c) ` set xs)"
    using assms by (intro mono_Min_commute) simp_all
  then show ?thesis by simp
qed

lemma Max_shift:
  fixes xs :: "real list"
  assumes "xs \<noteq> []"
  shows "Max ((\<lambda>x. x - c) ` set xs) = Max (set xs) - c"
proof -
  have "mono (\<lambda>x::real. x - c)" by (simp add: mono_def)
  then have "Max (set xs) - c = Max ((\<lambda>x. x - c) ` set xs)"
    using assms by (intro mono_Max_commute) simp_all
  then show ?thesis by simp
qed

lemma Min_div:
  fixes xs :: "real list"
  assumes "xs \<noteq> []" and "0 < d"
  shows "Min ((\<lambda>x. x / d) ` set xs) = Min (set xs) / d"
proof -
  have "mono (\<lambda>x::real. x / d)" using assms(2) by (simp add: mono_def divide_right_mono)
  then have "Min (set xs) / d = Min ((\<lambda>x. x / d) ` set xs)"
    using assms by (intro mono_Min_commute) simp_all
  then show ?thesis by simp
qed

lemma Max_div:
  fixes xs :: "real list"
  assumes "xs \<noteq> []" and "0 < d"
  shows "Max ((\<lambda>x. x / d) ` set xs) = Max (set xs) / d"
proof -
  have "mono (\<lambda>x::real. x / d)" using assms(2) by (simp add: mono_def divide_right_mono)
  then have "Max (set xs) / d = Max ((\<lambda>x. x / d) ` set xs)"
    using assms by (intro mono_Max_commute) simp_all
  then show ?thesis by simp
qed

lemma lo_shift: "xs \<noteq> [] \<Longrightarrow> or_zero (array_min (map (\<lambda>x. x - c) xs)) = or_zero (array_min xs) - c"
  by (simp add: lo_Min Min_shift)

lemma hi_shift: "xs \<noteq> [] \<Longrightarrow> or_zero (array_max (map (\<lambda>x. x - c) xs)) = or_zero (array_max xs) - c"
  by (simp add: hi_Max Max_shift)

lemma lo_div: "0 < d \<Longrightarrow> or_zero (array_min (map (\<lambda>x. x / d) xs)) = or_zero (array_min xs) / d"
  by (cases "xs = []") (simp_all add: lo_Min Min_div or_zero_None)

lemma hi_div: "0 < d \<Longrightarrow> or_zero (array_max (map (\<lambda>x. x / d) xs)) = or_zero (array_max xs) / d"
  by (cases "xs = []") (simp_all add: hi_Max Max_div or_zero_None)

lemma map_fst_shift: "map fst (map (shift_point off) cs) = map (\<lambda>x. x - fst off) (map fst cs)"
  by (simp add: shift_point_def comp_def)

lemma map_snd_shift: "map snd (map (shift_point off) cs) = map (\<lambda>y. y - snd off) (map snd cs)"
  by (simp add: shift_point_def comp_def)

lemma map_fst_div: "map fst (map (\<lambda>c. (fst c / d, snd c / d)) cs) = map (\<lambda>x. x / d) (map fst cs)"
  by (simp add: comp_def)

lemma map_snd_div: "map snd (map (\<lambda>c. (fst c / d, snd c / d)) cs) = map (\<lambda>y. y / d) (map snd cs)"
  by (simp add: comp_def)

lemma shift_zero: "map (shift_point (0, 0)) cs = cs"
  by (induction cs) (simp_all add: shift_point_def)

lemma store_same: "st\<lparr>cells := (cells st)(a := cells st a)\<rparr> = st"
  by simp

text \<open>\<^verbatim>\<open>_calcDimensions\<close> in closed form, for a positive pixel ratio.\<close>

lemma calcDimensions_eq:
  assumes "perspectiveCoords p = Some a" and "0 < dpr"
  shows "calcDimensions dpr p st =
     Inr \<lparr>left = or_zero (array_min (map fst (cells st a))) / dpr,
          top = or_zero (array_min (map snd (cells st a))) / dpr,
          dimensions.width = (or_zero (array_max (map fst (cells st a))) - or_zero (array_min (map fst (cells st a)))) / dpr,
          dimensions.height = (or_zero (array_max (map snd (cells st a))) - or_zero (array_min (map snd (cells st a)))) / dpr\<rparr>"
proof -
  have x: "or_zero (array_min (map fst (cells st a))) \<le> or_zero (array_max (map fst (cells st a)))"
    by (rule lo_le_hi)
  have y: "or_zero (array_min (map snd (cells st a))) \<le> or_zero (array_max (map snd (cells st a)))"
    by (rule lo_le_hi)
  show ?thesis
    using assms x y
    by (simp add: calcDimensions_def Let_def map_fst_div map_snd_div lo_div hi_div
        diff_divide_distrib [symmetric] abs_of_nonneg del: map_map)
qed

subsection \<open>The bounding frame\<close>

text \<open>
  Claim C8. For every set of control points, the width and the height of the bounding
  frame that \<^verbatim>\<open>_calcDimensions\<close> and \<^verbatim>\<open>getPerspectiveBounds\<close> compute from it are at least
  \<open>0\<close>, and each is the absolute value of the difference between the greatest and the
  least coordinate on its axis. \<^verbatim>\<open>_calcDimensions\<close> takes the coordinates divided by the
  device pixel ratio, \<^verbatim>\<open>getPerspectiveBounds\<close> takes them as they are.
\<close>

theorem calcDimensions_getPerspectiveBounds_abs:
  assumes "0 < dpr" and "perspectiveCoords p = Some a" and "perspectiveCoords f = Some a"
    and "cells st a = cs"
  shows "\<exists>d b f'. calcDimensions dpr p st = (Inr d :: 'e exn + dimensions)
           \<and> getPerspectiveBounds arg f st = (Inr (b, f') :: 'e exn + bounds \<times> filter)
           \<and> 0 \<le> dimensions.width d \<and> 0 \<le> dimensions.height d
           \<and> 0 \<le> bounds.width b \<and> 0 \<le> bounds.height b
           \<and> (cs \<noteq> [] \<longrightarrow>
                 dimensions.width d
                   = \<bar>Max (set (map (\<lambda>c. fst c / dpr) cs)) - Min (set (map (\<lambda>c. fst c / dpr) cs))\<bar>
               \<and> dimensions.height d
                   = \<bar>Max (set (map (\<lambda>c. snd c / dpr) cs)) - Min (set (map (\<lambda>c. snd c / dpr) cs))\<bar>
               \<and> bounds.width b = \<bar>Max (set (map fst cs)) - Min (set (map fst cs))\<bar>
               \<and> bounds.height b = \<bar>Max (set (map snd cs)) - Min (set (map snd cs))\<bar>)"
proof -
  let ?xs = "map (\<lambda>c. fst c / dpr) cs" and ?ys = "map (\<lambda>c. snd c / dpr) cs"
  have cd: "calcDimensions dpr p st =
      (Inr \<lparr>left = or_zero (array_min ?xs), top = or_zero (array_min ?ys),
           dimensions.width = \<bar>or_zero (array_max ?xs) - or_zero (array_min ?xs)\<bar>,
           dimensions.height = \<bar>or_zero (array_max ?ys) - or_zero (array_min ?ys)\<bar>\<rparr>
        :: 'e exn + dimensions)"
    using assms(2,4) by (simp add: calcDimensions_def Let_def comp_def)
  have gb: "\<exists>f'. getPerspectiveBounds arg f st =
      (Inr (\<lparr>bounds.width = \<bar>or_zero (array_max (map fst cs)) - or_zero (array_min (map fst cs))\<bar>,
             bounds.height = \<bar>or_zero (array_max (map snd cs)) - or_zero (array_min (map snd cs))\<bar>,
             minX = or_zero (array_min (map fst cs)), maxX = or_zero (array_max (map fst cs)),
             minY = or_zero (array_min (map snd cs)), maxY = or_zero (array_max (map snd cs))\<rparr>, f')
        :: 'e exn + bounds \<times> filter)"
    using assms(3,4) by (simp add: getPerspectiveBounds_def Let_def)
  have ne: "cs \<noteq> [] \<Longrightarrow> ?xs \<noteq> [] \<and> ?ys \<noteq> [] \<and> map fst cs \<noteq> [] \<and> map snd cs \<noteq> []"
    by simp
  from gb obtain f' where gb': "getPerspectiveBounds arg f st =
      (Inr (\<lparr>bounds.width = \<bar>or_zero (array_max (map fst cs)) - or_zero (array_min (map fst cs))\<bar>,
             bounds.height = \<bar>or_zero (array_max (map snd cs)) - or_zero (array_min (map snd cs))\<bar>,
             minX = or_zero (array_min (map fst cs)), maxX = or_zero (array_max (map fst cs)),
             minY = or_zero (array_min (map snd cs)), maxY = or_zero (array_max (map snd cs))\<rparr>, f')
        :: 'e exn + bounds \<times> filter)" ..
  show ?thesis
    apply (rule exI, rule exI, rule exI)
    apply (rule conjI, rule cd)
    apply (rule conjI, rule gb')
    using ne by (simp add: lo_Min hi_Max del: set_map)
qed

theorem calcDimensions_getPerspectiveBounds_abs_witness:
  "(0::real) < 2 \<and> perspectiveCoords sample_photo = Some 0 \<and> perspectiveCoords sample_filter = Some 0
   \<and> cells (store_with dragged) 0 = dragged \<and> dragged \<noteq> []
   \<and> calcDimensions 2 sample_photo (store_with dragged)
       = (Inr \<lparr>left = -10, top = -10, dimensions.width = 210, dimensions.height = 110\<rparr>
           :: unit exn + dimensions)
   \<and> \<bar>Max (set (map (\<lambda>c. fst c / 2) dragged)) - Min (set (map (\<lambda>c. fst c / 2) dragged))\<bar> = 210
   \<and> \<bar>Max (set (map snd dragged)) - Min (set (map snd dragged))\<bar> = 220"
  using calcDimensions_getPerspectiveBounds_abs
    [of 2 sample_photo 0 sample_filter "store_with dragged" dragged None, where ?'e = unit]
  by (simp add: sample_photo_def sample_filter_def filter_fields_def store_with_def dragged_def
      calcDimensions_def or_zero_def)



subsection \<open>Construction\<close>

text \<open>
  Claim C9. Constructing a Perspective filter with \<^verbatim>\<open>perspectiveCoords\<close> \<open>P\<close> and
  \<^verbatim>\<open>pixelRatio\<close> \<open>r\<close> multiplies both components of every entry of \<open>P\<close> by \<open>r\<close> in
  place; a Photo that holds the same array sees its own control points scaled.
\<close>

theorem Perspective_scales_shared_array:
  assumes "perspectiveCoords p = Some a"
  shows "\<exists>f st'. Perspective dpr (Some \<lparr>opt_hasRelativeCoordinates = hr, opt_pixelRatio = Some r,
                                      opt_perspectiveCoords = Some a\<rparr>) st
                    = (Inr (f, st') :: 'e exn + filter \<times> store)
           \<and> perspectiveCoords f = Some a
           \<and> cells st' a = map (\<lambda>c. (fst c * r, snd c * r)) (cells st a)
           \<and> coords_of p st' = Some (map (\<lambda>c. (fst c * r, snd c * r)) (cells st a))
           \<and> coords_of f st' = coords_of p st'"
  using assms
  by (cases hr)
     (simp_all add: Perspective_def setOptions_def filter_fields_def applyPixelRatio_def
        coords_of_def scale_point_def Let_def)

theorem Perspective_scales_shared_array_witness:
  "perspectiveCoords sample_photo = Some 0
   \<and> (\<exists>f st'. Perspective 1 (Some \<lparr>opt_hasRelativeCoordinates = Some False, opt_pixelRatio = Some 2,
                                    opt_perspectiveCoords = Some 0\<rparr>) (store_with dragged)
                  = (Inr (f, st') :: unit exn + filter \<times> store)
         \<and> coords_of sample_photo st' = Some [(-40, -40), (800, 0), (800, 400), (0, 400)])"
  using Perspective_scales_shared_array
    [of sample_photo 0 1 "Some False" 2 "store_with dragged", where ?'e = unit]
  by (auto simp add: sample_photo_def store_with_def dragged_def)

text \<open>
  Claim C2. For scaled width \<open>w\<close> and scaled height \<open>h\<close>, \<^verbatim>\<open>getInitialPerspective\<close>
  produces exactly four control points, the corners \<open>(0,0)\<close>, \<open>(w,0)\<close>, \<open>(w,h)\<close>,
  \<open>(0,h)\<close> in this order, each multiplied by the device pixel ratio.
\<close>

theorem getInitialPerspective_corners:
  "\<exists>p' st'. getInitialPerspective dpr w h p st = (Inr (fresh st, p', st') :: 'e exn + addr \<times> photo \<times> store)
     \<and> perspectiveCoords p' = Some (fresh st)
     \<and> cells st' (fresh st) = [(0, 0), (w * dpr, 0), (w * dpr, h * dpr), (0, h * dpr)]
     \<and> cells st' (fresh st) = map (scale_point dpr) [(0, 0), (w, 0), (w, h), (0, h)]
     \<and> length (cells st' (fresh st)) = 4"
  by (simp add: getInitialPerspective_def alloc_def Perspective_def setOptions_def
      filter_fields_def applyPixelRatio_def scale_point_def Let_def)

subsection \<open>Tessellation\<close>

text \<open>
  \<^verbatim>\<open>generateSurface\<close> reads nothing but the coordinates of the control points: the other
  fields of the filter, the reference and the rest of the heap do not reach the library
  call. Whether the library returns the same mesh for the same corners is a property of
  verb-nurbs-web, which is a parameter here.
\<close>

lemma generateSurface_reads_corners_only:
  assumes "perspectiveCoords f1 = Some a1" and "perspectiveCoords f2 = Some a2"
    and "cells st1 a1 = cells st2 a2"
  shows "generateSurface tess f1 st1 = generateSurface tess f2 st2"
  using assms by (simp add: generateSurface_def)

text \<open>
  Claim C3, as the specification states it: for four collinear corners
  \<^verbatim>\<open>generateSurface\<close> fails with \<open>DegenerateGeometry\<close>. It does not: at four corners on
  one line no behaviour of the library makes the method fail with that error, and where
  the library returns a mesh the method returns it.
\<close>

theorem generateSurface_degenerate_counterexample:
  "collinear on_a_line \<and> length on_a_line = 4
   \<and> \<not> (\<exists>tess :: unit tessellator.
          generateSurface tess sample_filter (store_with on_a_line) = Inl DegenerateGeometry)
   \<and> generateSurface sample_tessellator sample_filter (store_with on_a_line)
       = Inr \<lparr>faces = [[0, 1, 2], [0, 2, 3]],
              points = [[0, 0], [100, 50], [200, 100], [300, 150]],
              uvs = [[0, 0], [1, 0], [1, 1], [0, 1]]\<rparr>"
  by (auto simp add: collinear_def on_a_line_def generateSurface_def sample_filter_def
      filter_fields_def store_with_def sample_tessellator_def nth_opt_def split: sum.splits)

text \<open>
  Claim C3, amended. \<^verbatim>\<open>generateSurface\<close> does not inspect its corners and never fails
  with \<open>DegenerateGeometry\<close>: it hands the first four entries of
  \<^verbatim>\<open>perspectiveCoords\<close> (\<^verbatim>\<open>undefined\<close> for a missing one) to the library and returns
  the mesh the library returns, for collinear corners as for any others. It fails with a
  TypeError when \<^verbatim>\<open>perspectiveCoords\<close> is \<^verbatim>\<open>undefined\<close>, and with the library's own
  exception when the library throws.
\<close>

theorem generateSurface_passes_corners_on:
  fixes tess :: "'e tessellator"
  shows "generateSurface tess f st \<noteq> Inl DegenerateGeometry
   \<and> (perspectiveCoords f = None \<longrightarrow> generateSurface tess f st = Inl TypeError)
   \<and> (\<forall>a. perspectiveCoords f = Some a \<longrightarrow>
          generateSurface tess f st
            = (case tess (nth_opt (cells st a) 0) (nth_opt (cells st a) 1)
                         (nth_opt (cells st a) 2) (nth_opt (cells st a) 3) of
                 Inl e \<Rightarrow> Inl (Foreign e) | Inr m \<Rightarrow> Inr m))"
  by (auto simp add: generateSurface_def Let_def split: option.splits sum.splits)

theorem generateSurface_passes_corners_on_witness:
  "perspectiveCoords sample_filter = Some 0
   \<and> collinear (cells (store_with on_a_line) 0)
   \<and> generateSurface sample_tessellator sample_filter (store_with on_a_line)
       = Inr \<lparr>faces = [[0, 1, 2], [0, 2, 3]],
              points = [[0, 0], [100, 50], [200, 100], [300, 150]],
              uvs = [[0, 0], [1, 0], [1, 1], [0, 1]]\<rparr>
   \<and> perspectiveCoords (filter_fields 1) = None
   \<and> generateSurface sample_tessellator (filter_fields 1) (store_with on_a_line) = Inl TypeError"
  using generateSurface_passes_corners_on [of sample_tessellator sample_filter "store_with on_a_line"]
    generateSurface_passes_corners_on [of sample_tessellator "filter_fields 1" "store_with on_a_line"]
  by (simp add: sample_filter_def filter_fields_def store_with_def on_a_line_def collinear_def
      nth_opt_def sample_tessellator_def)

subsection \<open>The render pass\<close>

text \<open>
  Claim C7, as the specification states it: a render request without a usable GPU context
  fails with \<open>RenderBackendUnavailable\<close> rather than silently doing nothing. It does not:
  with \<^verbatim>\<open>options.webgl\<close> false \<^verbatim>\<open>applyTo\<close> returns normally, having changed and drawn
  nothing.
\<close>

theorem applyTo_without_webgl_counterexample:
  "applyTo failing_backend sample_filter (store_with dragged) no_webgl
     = Inr (sample_filter, store_with dragged, no_webgl, None)"
  by (simp add: applyTo_def no_webgl_def)

text \<open>
  Claim C7, amended. \<^verbatim>\<open>applyTo\<close> never fails with \<open>RenderBackendUnavailable\<close>. When
  \<^verbatim>\<open>options.webgl\<close> is false it returns normally and leaves the filter, the control
  points and the pipeline state as they were, drawing nothing. When WebGL is on and
  shader compilation fails in fabric's \<^verbatim>\<open>retrieveShader\<close>, the exception of fabric reaches
  the caller as it is.
\<close>

theorem applyTo_failures:
  fixes be :: "'e backend"
  shows "applyTo be f st opts \<noteq> Inl RenderBackendUnavailable
   \<and> (\<not> webgl opts \<longrightarrow> applyTo be f st opts = Inr (f, st, opts, None))
   \<and> (\<forall>a e. webgl opts \<and> perspectiveCoords f = Some a \<and> setupFrameBuffer be = None
            \<and> retrieveShader be = Some e
          \<longrightarrow> applyTo be f st opts = Inl (Foreign e))"
  by (auto simp add: applyTo_def applyToWebGL_def getPerspectiveBounds_def
      calculateCoordsByCorners_def generateSurface_def Let_def
      split: option.splits sum.splits if_splits)

theorem applyTo_failures_witness:
  "\<not> webgl no_webgl
   \<and> applyTo failing_backend sample_filter (store_with dragged) no_webgl
       = Inr (sample_filter, store_with dragged, no_webgl, None)
   \<and> webgl (no_webgl\<lparr>webgl := True\<rparr>) \<and> perspectiveCoords sample_filter = Some 0
   \<and> setupFrameBuffer failing_backend = None \<and> retrieveShader failing_backend = Some ()
   \<and> applyTo failing_backend sample_filter (store_with dragged) (no_webgl\<lparr>webgl := True\<rparr>)
       = Inl (Foreign ())"
  using applyTo_failures [of failing_backend sample_filter "store_with dragged" no_webgl]
    applyTo_failures [of failing_backend sample_filter "store_with dragged"
                         "no_webgl\<lparr>webgl := True\<rparr>"]
  by (simp add: no_webgl_def failing_backend_def sample_filter_def filter_fields_def)

subsection \<open>Dragging\<close>

text \<open>
  Claim C6, as the specification states it: a drag that begins with a control-point index
  out of range fails with \<open>InvalidControlPoint\<close> and moves no control point. It does not:
  the handler that \<^verbatim>\<open>_actionWrapper\<close> builds for anchor index \<open>7\<close>, with four control
  points, runs the drag of the second corner to \<open>(220, -10)\<close> and returns true.
\<close>

theorem actionWrapper_out_of_range_counterexample:
  "length initial_corners = 4
   \<and> (case actionWrapper 7 (actionHandler identity_transform 1 0 1) (Some ()) (Some ()) 120 (-60)
            (sample_photo, store_with initial_corners)
            :: unit exn + bool option \<times> photo \<times> store of
         Inl e \<Rightarrow> False
       | Inr (r, p, st) \<Rightarrow>
           r = Some True \<and> cells st 0 = [(0, 10), (220, 0), (200, 110), (0, 110)]
           \<and> pathOffset p = Some (0, -10) \<and> photo.width p = 220 \<and> photo.height p = 110)"
  by (simp add: actionWrapper_def actionHandler_def identity_transform_def sample_photo_def
      store_with_def initial_corners_def resetSizeAndPosition_def setPositionDimensions_def
      calcDimensions_def applyPointsOffset_def or_zero_def shift_point_def Let_def)

text \<open>
  Claim C6, amended. \<^verbatim>\<open>_actionWrapper(anchorIndex, fn)\<close> does not read \<open>anchorIndex\<close>:
  the handler it returns behaves the same for every index, in range or not. When
  \<^verbatim>\<open>transform\<close> or \<^verbatim>\<open>eventData\<close> is missing the handler returns \<^verbatim>\<open>undefined\<close> and
  changes nothing; otherwise it runs \<open>fn\<close> and returns what \<open>fn\<close> returns. With the
  action handler of \<^verbatim>\<open>togglePerspective\<close> for \<open>fn\<close> it never fails with
  \<open>InvalidControlPoint\<close>.
\<close>

theorem actionWrapper_ignores_anchorIndex:
  fixes fn :: "'ev \<Rightarrow> 'tr \<Rightarrow> real \<Rightarrow> real \<Rightarrow> 's \<Rightarrow> 'e exn + ('r \<times> 's)"
    and eventData' :: "'ev2 option" and transform' :: "'tr2 option"
  shows "actionWrapper i fn eventData transform x y s = actionWrapper j fn eventData transform x y s
   \<and> (eventData = None \<or> transform = None
        \<longrightarrow> actionWrapper i fn eventData transform x y s = Inr (None, s))
   \<and> (\<forall>ev tr. eventData = Some ev \<and> transform = Some tr
        \<longrightarrow> actionWrapper i fn eventData transform x y s
            = (case fn ev tr x y s of Inl e \<Rightarrow> Inl e | Inr (r, s') \<Rightarrow> Inr (Some r, s')))
   \<and> actionWrapper i (actionHandler toLocal dpr a index) eventData' transform' x y t
        \<noteq> (Inl InvalidControlPoint :: 'e exn + bool option \<times> photo \<times> store)"
  by (auto simp add: actionWrapper_def actionHandler_def resetSizeAndPosition_def
      setPositionDimensions_def calcDimensions_def applyPointsOffset_def Let_def
      split: option.splits sum.splits if_splits)

theorem actionWrapper_ignores_anchorIndex_witness:
  "actionWrapper 7 (actionHandler identity_transform 1 0 1) (Some ()) (Some ()) 120 (-60)
       (sample_photo, store_with initial_corners)
     = (actionWrapper 0 (actionHandler identity_transform 1 0 1) (Some ()) (Some ()) 120 (-60)
         (sample_photo, store_with initial_corners) :: unit exn + bool option \<times> photo \<times> store)
   \<and> actionWrapper 7 (actionHandler identity_transform 1 0 1) (Some ()) (None :: unit option)
       120 (-60) (sample_photo, store_with initial_corners)
     = (Inr (None, sample_photo, store_with initial_corners)
         :: unit exn + bool option \<times> photo \<times> store)
   \<and> actionWrapper 7 (actionHandler identity_transform 1 0 1) (Some ()) (Some ()) 120 (-60)
       (sample_photo, store_with initial_corners)
     = (case actionHandler identity_transform 1 0 1 () () 120 (-60)
               (sample_photo, store_with initial_corners) of
          Inl e \<Rightarrow> Inl e
        | Inr (r, s') \<Rightarrow> (Inr (Some r, s') :: unit exn + bool option \<times> photo \<times> store))"
  using actionWrapper_ignores_anchorIndex
      [of 7 "actionHandler identity_transform 1 0 1
               :: unit \<Rightarrow> unit \<Rightarrow> real \<Rightarrow> real \<Rightarrow> photo \<times> store \<Rightarrow> unit exn + bool \<times> photo \<times> store"
          "Some ()" "Some ()" 120 "-60" "(sample_photo, store_with initial_corners)" 0
          identity_transform 1 0 1 "Some ()" "Some ()" "(sample_photo, store_with initial_corners)"]
    actionWrapper_ignores_anchorIndex
      [of 7 "actionHandler identity_transform 1 0 1
               :: unit \<Rightarrow> unit \<Rightarrow> real \<Rightarrow> real \<Rightarrow> photo \<times> store \<Rightarrow> unit exn + bool \<times> photo \<times> store"
          "Some ()" "None" 120 "-60" "(sample_photo, store_with initial_corners)" 0
          identity_transform 1 0 1 "Some ()" "Some ()" "(sample_photo, store_with initial_corners)"]
  by blast

text \<open>
  The anchor index that \<^verbatim>\<open>togglePerspective\<close> computes for a control is always in range.
\<close>

lemma anchorIndex_of_in_range: "index < n \<Longrightarrow> anchorIndex_of n index < n"
  by (auto simp add: anchorIndex_of_def)

subsection \<open>Recomputing the frame and normalising the offset\<close>

text \<open>\<^verbatim>\<open>_resetSizeAndPosition()\<close> in closed form, for a positive pixel ratio.\<close>

lemma resetSizeAndPosition_Some:
  assumes "perspectiveCoords p = Some a" and "0 < dpr"
  shows "resetSizeAndPosition dpr i None (p, st) =
     Inr (p\<lparr>photo.width := (or_zero (array_max (map fst (cells st a)))
                              - or_zero (array_min (map fst (cells st a)))) / dpr,
            photo.height := (or_zero (array_max (map snd (cells st a)))
                              - or_zero (array_min (map snd (cells st a)))) / dpr,
            pathOffset := Some (or_zero (array_min (map fst (cells st a))) / dpr,
                                or_zero (array_min (map snd (cells st a))) / dpr)\<rparr>,
          if cells st a = [] then st
          else st\<lparr>cells := (cells st)
                 (a := map (shift_point (or_zero (array_min (map fst (cells st a))) / dpr,
                                         or_zero (array_min (map snd (cells st a))) / dpr))
                           (cells st a))\<rparr>)"
  using assms
  by (simp add: resetSizeAndPosition_def setPositionDimensions_def calcDimensions_eq
      applyPointsOffset_def)

lemma resetSizeAndPosition_None:
  "perspectiveCoords p = None \<Longrightarrow> resetSizeAndPosition dpr i ap (p, st) = Inl TypeError"
  by (simp add: resetSizeAndPosition_def setPositionDimensions_def calcDimensions_def)

lemma resetSizeAndPosition_keeps_ref:
  assumes "resetSizeAndPosition dpr i ap (p, st) = Inr (p1, st1)"
  shows "perspectiveCoords p1 = perspectiveCoords p \<and> perspectiveCoords p \<noteq> None"
  using assms
  by (auto simp add: resetSizeAndPosition_def setPositionDimensions_def calcDimensions_def
      applyPointsOffset_def Let_def split: option.splits if_splits sum.splits)

text \<open>
  Claim C5, as the specification states it: a second \<^verbatim>\<open>_resetSizeAndPosition\<close> changes
  neither the control points nor width, height and \<^verbatim>\<open>pathOffset\<close>. It does not hold, even
  at pixel ratio \<open>1\<close>: the first run stores the offset \<open>(-20, -20)\<close> it subtracted, the
  second stores \<open>(0, 0)\<close>.
\<close>

theorem resetSizeAndPosition_twice_counterexample:
  "resetSizeAndPosition 1 None None (sample_photo, store_with dragged)
     = (Inr (sample_photo\<lparr>photo.width := 420, photo.height := 220, pathOffset := Some (-20, -20)\<rparr>,
            store_with [(0, 0), (420, 20), (420, 220), (20, 220)]) :: unit exn + photo \<times> store)
   \<and> resetSizeAndPosition 1 None None
         (sample_photo\<lparr>photo.width := 420, photo.height := 220, pathOffset := Some (-20, -20)\<rparr>,
          store_with [(0, 0), (420, 20), (420, 220), (20, 220)])
     \<noteq> (Inr (sample_photo\<lparr>photo.width := 420, photo.height := 220, pathOffset := Some (-20, -20)\<rparr>,
            store_with [(0, 0), (420, 20), (420, 220), (20, 220)]) :: unit exn + photo \<times> store)"
  by (simp add: resetSizeAndPosition_def setPositionDimensions_def calcDimensions_def
        applyPointsOffset_def sample_photo_def store_with_def dragged_def or_zero_def
        shift_point_def)

text \<open>
  Claim C5, amended. At device pixel ratio \<open>1\<close>, a second \<^verbatim>\<open>_resetSizeAndPosition\<close> with
  no drag in between leaves the control points, the width and the height as the first run
  left them and sets \<^verbatim>\<open>pathOffset\<close> to \<open>(0, 0)\<close>: the state after the second run is the
  state after the first with only \<^verbatim>\<open>pathOffset\<close> replaced. At this pixel ratio every
  operation involved (division by \<open>1\<close>, \<open>x - m\<close> with \<open>m\<close> the least \<open>x\<close>, subtraction
  of \<open>0\<close>) is exact in the doubles of the code as well.
\<close>

theorem resetSizeAndPosition_twice:
  assumes "resetSizeAndPosition 1 i None (p, st) = (Inr (p1, st1) :: 'e exn + photo \<times> store)"
  shows "resetSizeAndPosition 1 j None (p1, st1)
           = (Inr (p1\<lparr>pathOffset := Some (0, 0)\<rparr>, st1) :: 'e exn + photo \<times> store)
       \<and> photo.width (p1\<lparr>pathOffset := Some (0, 0)\<rparr>) = photo.width p1
       \<and> photo.height (p1\<lparr>pathOffset := Some (0, 0)\<rparr>) = photo.height p1
       \<and> coords_of (p1\<lparr>pathOffset := Some (0, 0)\<rparr>) st1 = coords_of p1 st1"
proof -
  from assms obtain a where a: "perspectiveCoords p = Some a"
    using resetSizeAndPosition_keeps_ref by blast
  let ?cs = "cells st a"
  let ?mx = "or_zero (array_min (map fst ?cs))" and ?my = "or_zero (array_min (map snd ?cs))"
  let ?Mx = "or_zero (array_max (map fst ?cs))" and ?My = "or_zero (array_max (map snd ?cs))"
  have first: "resetSizeAndPosition 1 i None (p, st) =
      (Inr (p\<lparr>photo.width := ?Mx - ?mx, photo.height := ?My - ?my, pathOffset := Some (?mx, ?my)\<rparr>,
           if ?cs = [] then st
           else st\<lparr>cells := (cells st)(a := map (shift_point (?mx, ?my)) ?cs)\<rparr>)
        :: 'e exn + photo \<times> store)"
    using resetSizeAndPosition_Some [OF a, of 1 i st] by (simp cong: if_cong)
  with assms have p1: "p1 = p\<lparr>photo.width := ?Mx - ?mx, photo.height := ?My - ?my,
                               pathOffset := Some (?mx, ?my)\<rparr>"
    and st1: "st1 = (if ?cs = [] then st
                     else st\<lparr>cells := (cells st)(a := map (shift_point (?mx, ?my)) ?cs)\<rparr>)"
    by simp_all
  have a1: "perspectiveCoords p1 = Some a" using p1 a by simp
  have run: "resetSizeAndPosition 1 j None (p1, st1)
           = (Inr (p1\<lparr>pathOffset := Some (0, 0)\<rparr>, st1) :: 'e exn + photo \<times> store)"
  proof (cases "?cs = []")
    case True
    then have "st1 = st" using st1 by simp
    then show ?thesis
      using resetSizeAndPosition_Some [OF a1, of 1 j st1] True p1
      by (simp add: or_zero_None)
  next
    case False
    then have cs1: "cells st1 a = map (shift_point (?mx, ?my)) ?cs" using st1 by simp
    have ne: "map fst ?cs \<noteq> []" "map snd ?cs \<noteq> []" using False by simp_all
    have lx: "or_zero (array_min (map fst (cells st1 a))) = 0"
      and ly: "or_zero (array_min (map snd (cells st1 a))) = 0"
      and hx: "or_zero (array_max (map fst (cells st1 a))) = ?Mx - ?mx"
      and hy: "or_zero (array_max (map snd (cells st1 a))) = ?My - ?my"
      using ne by (simp_all add: cs1 map_fst_shift map_snd_shift lo_shift hi_shift del: map_map)
    have same: "st1\<lparr>cells := (cells st1)(a := map (shift_point (0, 0)) (cells st1 a))\<rparr> = st1"
      by (simp add: shift_zero)
    have "cells st1 a \<noteq> []" using cs1 False by simp
    then show ?thesis
      using resetSizeAndPosition_Some [OF a1, of 1 j st1] same
      by (simp add: lx ly hx hy p1)
  qed
  show ?thesis
    using run by (simp add: coords_of_def)
qed

theorem resetSizeAndPosition_twice_witness:
  "resetSizeAndPosition 1 None None (sample_photo, store_with dragged)
     = (Inr (sample_photo\<lparr>photo.width := 420, photo.height := 220, pathOffset := Some (-20, -20)\<rparr>,
            store_with [(0, 0), (420, 20), (420, 220), (20, 220)]) :: unit exn + photo \<times> store)
   \<and> resetSizeAndPosition 1 None None
         (sample_photo\<lparr>photo.width := 420, photo.height := 220, pathOffset := Some (-20, -20)\<rparr>,
          store_with [(0, 0), (420, 20), (420, 220), (20, 220)])
     = (Inr (sample_photo\<lparr>photo.width := 420, photo.height := 220, pathOffset := Some (0, 0)\<rparr>,
            store_with [(0, 0), (420, 20), (420, 220), (20, 220)]) :: unit exn + photo \<times> store)"
proof -
  have first: "resetSizeAndPosition 1 None None (sample_photo, store_with dragged)
     = (Inr (sample_photo\<lparr>photo.width := 420, photo.height := 220, pathOffset := Some (-20, -20)\<rparr>,
            store_with [(0, 0), (420, 20), (420, 220), (20, 220)]) :: unit exn + photo \<times> store)"
    by (simp add: resetSizeAndPosition_def setPositionDimensions_def calcDimensions_def
        applyPointsOffset_def sample_photo_def store_with_def dragged_def or_zero_def
        shift_point_def)
  from resetSizeAndPosition_twice [OF first, of None] first show ?thesis by simp
qed

text \<open>
  The filter's pair \<^verbatim>\<open>getPerspectiveBounds\<close>, \<^verbatim>\<open>calculateCoordsByCorners\<close> moves the
  least x and the least y of a non-empty set of control points to exactly \<open>0\<close> and keeps
  width and height.
\<close>

lemma calculateCoordsByCorners_normalises:
  assumes a: "perspectiveCoords f = Some a" and ne: "cells st a \<noteq> []"
    and b: "getPerspectiveBounds arg f st = (Inr (b, f1) :: 'e exn + bounds \<times> filter)"
    and s: "calculateCoordsByCorners None f1 st = (Inr st1 :: 'e exn + store)"
    and b2: "getPerspectiveBounds arg' f1 st1 = (Inr (b2, f2) :: 'e exn + bounds \<times> filter)"
  shows "Min (set (map fst (cells st1 a))) = 0 \<and> Min (set (map snd (cells st1 a))) = 0
       \<and> minX b2 = 0 \<and> minY b2 = 0
       \<and> bounds.width b2 = bounds.width b \<and> bounds.height b2 = bounds.height b"
proof -
  let ?cs = "cells st a"
  let ?mx = "or_zero (array_min (map fst ?cs))" and ?my = "or_zero (array_min (map snd ?cs))"
  let ?Mx = "or_zero (array_max (map fst ?cs))" and ?My = "or_zero (array_max (map snd ?cs))"
  from b a have f1: "perspectiveCoords f1 = Some a" "minX (bounds f1) = ?mx" "minY (bounds f1) = ?my"
    and bw: "bounds.width b = \<bar>?Mx - ?mx\<bar>" "bounds.height b = \<bar>?My - ?my\<bar>"
    by (auto simp add: getPerspectiveBounds_def Let_def)
  from s f1 have cs1: "cells st1 a = map (shift_point (?mx, ?my)) ?cs"
    by (auto simp add: calculateCoordsByCorners_def)
  have nes: "map fst ?cs \<noteq> []" "map snd ?cs \<noteq> []" using ne by simp_all
  have lx: "or_zero (array_min (map fst (cells st1 a))) = 0"
    and ly: "or_zero (array_min (map snd (cells st1 a))) = 0"
    and hx: "or_zero (array_max (map fst (cells st1 a))) = ?Mx - ?mx"
    and hy: "or_zero (array_max (map snd (cells st1 a))) = ?My - ?my"
    using nes by (simp_all add: cs1 map_fst_shift map_snd_shift lo_shift hi_shift del: map_map)
  have ne1: "map fst (cells st1 a) \<noteq> []" "map snd (cells st1 a) \<noteq> []" using cs1 ne by simp_all
  from b2 f1 have r: "minX b2 = 0" "minY b2 = 0"
    "bounds.width b2 = \<bar>?Mx - ?mx\<bar>" "bounds.height b2 = \<bar>?My - ?my\<bar>"
    by (auto simp add: getPerspectiveBounds_def Let_def lx ly hx hy)
  have "Min (set (map fst (cells st1 a))) = 0" "Min (set (map snd (cells st1 a))) = 0"
    using lx ly lo_Min [OF ne1(1)] lo_Min [OF ne1(2)] by simp_all
  with r bw show ?thesis by simp
qed

text \<open>
  In exact arithmetic, the Photo's pair \<^verbatim>\<open>_calcDimensions\<close>, \<^verbatim>\<open>_applyPointsOffset\<close>
  leaves the least coordinate \<open>m\<close> of an axis at \<open>m - m / dpr\<close>, which is \<open>0\<close> only
  for \<open>m = 0\<close> or \<open>dpr = 1\<close>.
\<close>

lemma applyPointsOffset_residue:
  assumes a: "perspectiveCoords p = Some a" and ne: "cells st a \<noteq> []" and d: "0 < dpr"
    and r: "resetSizeAndPosition dpr i None (p, st) = (Inr (p1, st1) :: 'e exn + photo \<times> store)"
  shows "Min (set (map fst (cells st1 a)))
           = Min (set (map fst (cells st a))) - Min (set (map fst (cells st a))) / dpr
       \<and> Min (set (map snd (cells st1 a)))
           = Min (set (map snd (cells st a))) - Min (set (map snd (cells st a))) / dpr"
proof -
  let ?cs = "cells st a"
  let ?mx = "or_zero (array_min (map fst ?cs))" and ?my = "or_zero (array_min (map snd ?cs))"
  have "resetSizeAndPosition dpr i None (p, st) =
      (Inr (p\<lparr>photo.width := (or_zero (array_max (map fst ?cs)) - ?mx) / dpr,
             photo.height := (or_zero (array_max (map snd ?cs)) - ?my) / dpr,
             pathOffset := Some (?mx / dpr, ?my / dpr)\<rparr>,
           if ?cs = [] then st
           else st\<lparr>cells := (cells st)(a := map (shift_point (?mx / dpr, ?my / dpr)) ?cs)\<rparr>)
        :: 'e exn + photo \<times> store)"
    by (rule resetSizeAndPosition_Some [OF a d])
  with r ne
  have cs1: "cells st1 a = map (shift_point (?mx / dpr, ?my / dpr)) ?cs"
    by auto
  have nes: "map fst ?cs \<noteq> []" "map snd ?cs \<noteq> []" using ne by simp_all
  have ne1: "map fst (cells st1 a) \<noteq> []" "map snd (cells st1 a) \<noteq> []" using cs1 ne by simp_all
  have "or_zero (array_min (map fst (cells st1 a))) = ?mx - ?mx / dpr"
    and "or_zero (array_min (map snd (cells st1 a))) = ?my - ?my / dpr"
    using nes by (simp_all add: cs1 map_fst_shift map_snd_shift lo_shift del: map_map)
  then show ?thesis
    using lo_Min [OF ne1(1)] lo_Min [OF ne1(2)] lo_Min [OF nes(1)] lo_Min [OF nes(2)] by simp
qed

text \<open>
  Claim C1 says that after \<^verbatim>\<open>_calcDimensions\<close> and \<^verbatim>\<open>_applyPointsOffset\<close> the least x and
  the least y of the control points are exactly \<open>0\<close>. At device pixel ratio \<open>2\<close> the
  offset is computed from the coordinates divided by \<open>2\<close> and subtracted from the
  coordinates as they are: the corner dragged to \<open>(-20, -20)\<close> ends at \<open>(-10, -10)\<close>, and
  the frame recomputed from the result starts at \<open>(-5, -5)\<close>.
\<close>

theorem resetSizeAndPosition_dpr2_not_normalised:
  "resetSizeAndPosition 2 None None (sample_photo, store_with dragged)
     = (Inr (sample_photo\<lparr>photo.width := 210, photo.height := 110, pathOffset := Some (-10, -10)\<rparr>,
            store_with [(-10, -10), (410, 10), (410, 210), (10, 210)]) :: unit exn + photo \<times> store)
   \<and> array_min (map fst [(-10, -10), (410, 10), (410, 210), (10, 210)]) = Some (-10)
   \<and> array_min (map snd [(-10, -10), (410, 10), (410, 210), (10, 210)]) = Some (-10)
   \<and> calcDimensions 2 (sample_photo\<lparr>photo.width := 210, photo.height := 110, pathOffset := Some (-10, -10)\<rparr>)
        (store_with [(-10, -10), (410, 10), (410, 210), (10, 210)])
     = (Inr \<lparr>left = -5, top = -5, dimensions.width = 210, dimensions.height = 110\<rparr>
         :: unit exn + dimensions)"
  by (simp add: resetSizeAndPosition_def setPositionDimensions_def calcDimensions_def
        applyPointsOffset_def sample_photo_def store_with_def dragged_def or_zero_def
        shift_point_def)

end
